theory Spec2Isabelle
  imports Main "HOL-Library.AList"
begin

section \<open>Tool contracts of promptflow: values, enumerations, errors\<close>

text \<open>
  The module \<^verbatim>\<open>promptflow/contracts/tool.py\<close> works on dynamically typed Python values.
  The values that reach it are plain data (what a JSON or YAML loader produces), the
  1-tuple that \<^verbatim>\<open>InputDefinition.serialize\<close> builds, bytes objects, and members of
  string-backed enumerations. Floating-point numbers and arbitrary user objects are
  outside this universe. A dictionary is an association list with string keys, in insertion order.
  Strings are lists of 8-bit characters, read as code points below 256.
\<close>

datatype ValueType =
  INT | DOUBLE | BOOL | STRING | SECRET | PROMPT_TEMPLATE | LIST | OBJECT | FILE_PATH | IMAGE

text \<open>The member \<^verbatim>\<open>_ACTION\<close> of the source is written \<open>ACTION\<close>.\<close>

datatype ToolType = LLM | PYTHON | PROMPT | ACTION | CUSTOM_LLM

datatype pyval =
    PNone
  | PBool bool
  | PInt int
  | PStr string
  | PBytes string
    \<comment> \<open>a \<^verbatim>\<open>bytes\<close> object, not a string; a \<^verbatim>\<open>bytearray\<close> behaves alike here\<close>
  | PList "pyval list"
  | PTuple "pyval list"
  | PDict "(string \<times> pyval) list"
  | PValueType ValueType
  | PToolType ToolType
  | PStrMember string string
    \<comment> \<open>a member of any other enumeration that mixes in \<^verbatim>\<open>str\<close>: its name and its value\<close>

datatype error =
    AttributeError
  | KeyError string
  | ValueError string pyval
    \<comment> \<open>the message prefix and the offending value that the message shows\<close>
  | JSONDecodeError
    \<comment> \<open>raised by the JSON decoder; in Python a subclass of \<^verbatim>\<open>ValueError\<close>\<close>
  | Unmodelled string
    \<comment> \<open>a library call that the host at hand does not provide\<close>

type_synonym dict = "(string \<times> pyval) list"

fun ValueType_value :: "ValueType \<Rightarrow> string" where
  "ValueType_value ValueType.INT = ''int''"
| "ValueType_value DOUBLE = ''double''"
| "ValueType_value BOOL = ''bool''"
| "ValueType_value STRING = ''string''"
| "ValueType_value SECRET = ''secret''"
| "ValueType_value PROMPT_TEMPLATE = ''prompt_template''"
| "ValueType_value LIST = ''list''"
| "ValueType_value OBJECT = ''object''"
| "ValueType_value FILE_PATH = ''file_path''"
| "ValueType_value IMAGE = ''image''"

fun ToolType_value :: "ToolType \<Rightarrow> string" where
  "ToolType_value LLM = ''llm''"
| "ToolType_value PYTHON = ''python''"
| "ToolType_value PROMPT = ''prompt''"
| "ToolType_value ACTION = ''action''"
| "ToolType_value CUSTOM_LLM = ''custom_llm''"

text \<open>Iterating over an enumeration class yields its members in definition order.\<close>

definition ValueType_all :: "ValueType list" where
  "ValueType_all =
     [ValueType.INT, DOUBLE, BOOL, STRING, SECRET, PROMPT_TEMPLATE, LIST, OBJECT, FILE_PATH, IMAGE]"


definition ValueType_members :: "pyval list" where
  "ValueType_members = map PValueType ValueType_all"


subsection \<open>Python primitives used by the module\<close>

text \<open>
  \<open>as_str v\<close> is the string content of \<open>v\<close> when \<^verbatim>\<open>isinstance(v, str)\<close> holds: a plain
  string, or a member of an enumeration that mixes in \<^verbatim>\<open>str\<close>.
\<close>

fun as_str :: "pyval \<Rightarrow> string option" where
  "as_str (PStr s) = Some s"
| "as_str (PValueType t) = Some (ValueType_value t)"
| "as_str (PToolType t) = Some (ToolType_value t)"
| "as_str (PStrMember n s) = Some s"
| "as_str _ = None"

definition is_str :: "pyval \<Rightarrow> bool" where
  "is_str v = (as_str v \<noteq> None)"

fun is_bool :: "pyval \<Rightarrow> bool" where
  "is_bool (PBool b) = True"
| "is_bool _ = False"

fun is_list :: "pyval \<Rightarrow> bool" where
  "is_list (PList xs) = True"
| "is_list _ = False"

text \<open>Truth value of an object, as tested by \<^verbatim>\<open>if x:\<close>.\<close>

fun truthy :: "pyval \<Rightarrow> bool" where
  "truthy PNone = False"
| "truthy (PBool b) = b"
| "truthy (PInt i) = (i \<noteq> 0)"
| "truthy (PStr s) = (s \<noteq> [])"
| "truthy (PBytes b) = (b \<noteq> [])"
| "truthy (PList xs) = (xs \<noteq> [])"
| "truthy (PTuple xs) = (xs \<noteq> [])"
| "truthy (PDict kvs) = (kvs \<noteq> [])"
| "truthy (PValueType t) = (ValueType_value t \<noteq> [])"
| "truthy (PToolType t) = (ToolType_value t \<noteq> [])"
| "truthy (PStrMember n s) = (s \<noteq> [])"

text \<open>
  \<^verbatim>\<open>str.lower\<close> on code points below 256: the letters A-Z and the upper-case letters of
  Latin-1 (192-222 without the multiplication sign 215) move up by 32.
\<close>

definition lower_char :: "char \<Rightarrow> char" where
  "lower_char c =
     (let n = (of_char c :: int)
      in if (65 \<le> n \<and> n \<le> 90) \<or> (192 \<le> n \<and> n \<le> 222 \<and> n \<noteq> 215)
         then char_of (n + 32) else c)"

definition lower :: "string \<Rightarrow> string" where
  "lower s = map lower_char s"

text \<open>\<^verbatim>\<open>bytes.lower\<close> changes the ASCII letters A-Z only.\<close>

definition lower_byte :: "char \<Rightarrow> char" where
  "lower_byte c =
     (let n = (of_char c :: int) in if 65 \<le> n \<and> n \<le> 90 then char_of (n + 32) else c)"

definition bytes_lower :: "string \<Rightarrow> string" where
  "bytes_lower b = map lower_byte b"

text \<open>
  \<^verbatim>\<open>v.lower()\<close>: strings and bytes objects have the method, the other values raise
  \<^verbatim>\<open>AttributeError\<close>. The result is a string or a bytes object, and \<^verbatim>\<open>==\<close> between the
  two kinds is false.
\<close>

definition py_lower :: "pyval \<Rightarrow> error + pyval" where
  "py_lower v =
     (case as_str v of
        Some s \<Rightarrow> Inr (PStr (lower s))
      | None \<Rightarrow> (case v of PBytes b \<Rightarrow> Inr (PBytes (bytes_lower b)) | _ \<Rightarrow> Inl AttributeError))"

text \<open>\<^verbatim>\<open>t.value\<close>: only enumeration members have the attribute.\<close>

fun attr_value :: "pyval \<Rightarrow> error + pyval" where
  "attr_value (PValueType t) = Inr (PStr (ValueType_value t))"
| "attr_value (PToolType t) = Inr (PStr (ToolType_value t))"
| "attr_value (PStrMember n s) = Inr (PStr s)"
| "attr_value _ = Inl AttributeError"

text \<open>A list comprehension whose element expression may raise stops at the first error.\<close>

fun traverse :: "('a \<Rightarrow> error + 'b) \<Rightarrow> 'a list \<Rightarrow> error + 'b list" where
  "traverse f [] = Inr []"
| "traverse f (x # xs) =
     (case f x of
        Inl e \<Rightarrow> Inl e
      | Inr y \<Rightarrow> (case traverse f xs of Inl e \<Rightarrow> Inl e | Inr ys \<Rightarrow> Inr (y # ys)))"

definition getitem :: "dict \<Rightarrow> string \<Rightarrow> error + pyval" where
  "getitem d k = (case map_of d k of None \<Rightarrow> Inl (KeyError k) | Some v \<Rightarrow> Inr v)"

definition dict_get :: "dict \<Rightarrow> string \<Rightarrow> pyval \<Rightarrow> pyval" where
  "dict_get d k dflt = (case map_of d k of None \<Rightarrow> dflt | Some v \<Rightarrow> v)"

definition setitem :: "dict \<Rightarrow> string \<Rightarrow> pyval \<Rightarrow> dict" where
  "setitem d k v = AList.update k v d"

definition keys :: "dict \<Rightarrow> string set" where
  "keys d = fst ` set d"

text \<open>
  Library calls of the host: \<^verbatim>\<open>json.loads\<close> and the built-in conversions \<^verbatim>\<open>int\<close>,
  \<^verbatim>\<open>float\<close> and \<^verbatim>\<open>str\<close>. The module is verified for every host.
\<close>

record host =
  json_loads :: "string \<Rightarrow> error + pyval"
  int_of :: "pyval \<Rightarrow> error + pyval"
  float_of :: "pyval \<Rightarrow> error + pyval"
  str_of :: "pyval \<Rightarrow> error + pyval"

text \<open>\<^verbatim>\<open>str(v)\<close> of a plain string is the string itself.\<close>

definition py_str :: "host \<Rightarrow> pyval \<Rightarrow> error + pyval" where
  "py_str h v = (case v of PStr s \<Rightarrow> Inr (PStr s) | _ \<Rightarrow> str_of h v)"

section \<open>Tolerant enumeration resolution\<close>

text \<open>
  \<^verbatim>\<open>next((i for i in cls if val.lower() == i.lower()), None)\<close>: the generator evaluates
  \<^verbatim>\<open>val.lower()\<close> and \<^verbatim>\<open>i.lower()\<close> for each member in turn and stops at the first match.
\<close>

fun next_match :: "pyval list \<Rightarrow> pyval \<Rightarrow> error + pyval option" where
  "next_match [] val = Inr None"
| "next_match (i # cls) val =
     (case py_lower val of
        Inl e \<Rightarrow> Inl e
      | Inr a \<Rightarrow>
          (case py_lower i of
             Inl e \<Rightarrow> Inl e
           | Inr b \<Rightarrow> if a = b then Inr (Some i) else next_match cls val))"

text \<open>\<^verbatim>\<open>_deserialize_enum(cls, val)\<close>, with \<open>cls\<close> given by its members.\<close>

definition deserialize_enum :: "pyval list \<Rightarrow> pyval \<Rightarrow> error + pyval" where
  "deserialize_enum cls val =
     (if \<not> list_all is_str cls then Inr val
      else case next_match cls val of
             Inl e \<Rightarrow> Inl e
           | Inr None \<Rightarrow> Inr val
           | Inr (Some typ) \<Rightarrow> Inr (if truthy typ then typ else val))"

section \<open>ValueType.parse\<close>

fun parse :: "host \<Rightarrow> ValueType \<Rightarrow> pyval \<Rightarrow> error + pyval" where
  "parse h ValueType.INT v = int_of h v"
| "parse h DOUBLE v = float_of h v"
| "parse h BOOL v =
     (if is_bool v then Inr v
      else case as_str v of
             Some s \<Rightarrow>
               if lower s \<in> set [''true'', ''false''] then Inr (PBool (lower s = ''true''))
               else Inl (ValueError ''Invalid boolean value'' v)
           | None \<Rightarrow> Inl (ValueError ''Invalid boolean value'' v))"
| "parse h STRING v = py_str h v"
| "parse h LIST v =
     (case (case as_str v of Some s \<Rightarrow> json_loads h s | None \<Rightarrow> Inr v) of
        Inl e \<Rightarrow> Inl e
      | Inr w \<Rightarrow> if \<not> is_list w then Inl (ValueError ''Invalid list value'' w) else Inr w)"
| "parse h OBJECT v =
     (case as_str v of
        Some s \<Rightarrow> (case json_loads h s of Inr w \<Rightarrow> Inr w | Inl e \<Rightarrow> Inr v)
      | None \<Rightarrow> Inr v)"
| "parse h SECRET v = Inr v"
| "parse h PROMPT_TEMPLATE v = Inr v"
| "parse h FILE_PATH v = Inr v"
| "parse h IMAGE v = Inr v"

section \<open>InputDefinition\<close>

text \<open>
  A dataclass does not check its annotations: a field holds whatever the constructor or
  \<^verbatim>\<open>deserialize\<close> puts there. \<open>in_type\<close> is the list \<^verbatim>\<open>type\<close>; an optional field that
  is not set is \<open>PNone\<close>.
\<close>

record InputDefinition =
  in_type :: "pyval list"
  in_default :: pyval
  in_description :: pyval
  in_enum :: pyval
  in_custom_type :: pyval

text \<open>
  \<^verbatim>\<open>InputDefinition.serialize\<close>. The first assignment stores a 1-tuple that holds the
  list of tags (the trailing comma of the source); the second one replaces it when
  there is exactly one type.
\<close>

definition InputDefinition_serialize :: "host \<Rightarrow> InputDefinition \<Rightarrow> error + dict" where
  "InputDefinition_serialize h d =
     (case traverse attr_value (in_type d) of
        Inl e \<Rightarrow> Inl e
      | Inr tags \<Rightarrow>
          let data = setitem [] ''type'' (PTuple [PList tags]);
              data = (if length (in_type d) = 1 then setitem data ''type'' (hd tags) else data)
          in case (if truthy (in_default d)
                   then map_sum id (setitem data ''default'') (py_str h (in_default d))
                   else Inr data) of
               Inl e \<Rightarrow> Inl e
             | Inr data \<Rightarrow>
                 let data = (if truthy (in_description d)
                             then setitem data ''description'' (in_description d) else data);
                     data = (if truthy (in_enum d)
                             then setitem data ''enum'' (in_enum d) else data);
                     data = (if truthy (in_custom_type d)
                             then setitem data ''custom_type'' (in_custom_type d) else data)
                 in Inr data)"

text \<open>The local function \<^verbatim>\<open>_deserialize_type\<close>.\<close>

definition normalize_type :: "pyval \<Rightarrow> pyval list" where
  "normalize_type v = (case v of PList xs \<Rightarrow> xs | _ \<Rightarrow> [v])"

definition deserialize_type :: "pyval \<Rightarrow> error + pyval list" where
  "deserialize_type v = traverse (deserialize_enum ValueType_members) (normalize_type v)"

text \<open>
  \<^verbatim>\<open>InputDefinition.deserialize\<close> passes four positional arguments, so \<^verbatim>\<open>custom_type\<close>
  takes its default \<^verbatim>\<open>None\<close>.
\<close>

definition InputDefinition_deserialize :: "dict \<Rightarrow> error + InputDefinition" where
  "InputDefinition_deserialize data =
     (case getitem data ''type'' of
        Inl e \<Rightarrow> Inl e
      | Inr v \<Rightarrow>
          (case deserialize_type v of
             Inl e \<Rightarrow> Inl e
           | Inr ts \<Rightarrow>
               Inr \<lparr>in_type = ts,
                    in_default = dict_get data ''default'' (PStr []),
                    in_description = dict_get data ''description'' (PStr []),
                    in_enum = dict_get data ''enum'' (PList []),
                    in_custom_type = PNone\<rparr>))"

section \<open>OutputDefinition\<close>

record OutputDefinition =
  out_type :: "pyval list"
  out_description :: pyval
  out_is_property :: pyval

definition OutputDefinition_serialize :: "OutputDefinition \<Rightarrow> error + dict" where
  "OutputDefinition_serialize d =
     (case traverse attr_value (out_type d) of
        Inl e \<Rightarrow> Inl e
      | Inr tags \<Rightarrow>
          let data = [(''type'', PList tags), (''is_property'', out_is_property d)];
              data = (if length tags = 1 then setitem data ''type'' (hd tags) else data);
              data = (if truthy (out_description d)
                      then setitem data ''description'' (out_description d) else data)
          in Inr data)"

text \<open>
  The constructor call \<^verbatim>\<open>ValueType(t)\<close> looks \<open>t\<close> up among the values of the members,
  by string equality, and raises \<^verbatim>\<open>ValueError\<close> when there is none.
\<close>

definition ValueType_call :: "pyval \<Rightarrow> error + pyval" where
  "ValueType_call v =
     (case as_str v of
        None \<Rightarrow> Inl (ValueError ''is not a valid ValueType'' v)
      | Some s \<Rightarrow>
          (case find (\<lambda>t. ValueType_value t = s) ValueType_all of
             None \<Rightarrow> Inl (ValueError ''is not a valid ValueType'' v)
           | Some t \<Rightarrow> Inr (PValueType t)))"

definition OutputDefinition_deserialize :: "dict \<Rightarrow> error + OutputDefinition" where
  "OutputDefinition_deserialize data =
     (case getitem data ''type'' of
        Inl e \<Rightarrow> Inl e
      | Inr v \<Rightarrow>
          (case traverse ValueType_call (normalize_type v) of
             Inl e \<Rightarrow> Inl e
           | Inr ts \<Rightarrow>
               Inr \<lparr>out_type = ts,
                    out_description = dict_get data ''description'' (PStr []),
                    out_is_property = dict_get data ''is_property'' (PBool False)\<rparr>))"

section \<open>Tool\<close>

text \<open>
  The metadata fields carry their declared types. \<open>tool_type\<close> is a value: a member of
  \<open>ToolType\<close>, or whatever tolerant resolution left in its place.
\<close>

record Tool =
  tool_name :: string
  tool_type :: pyval
  tool_inputs :: "(string \<times> InputDefinition) list"
  tool_outputs :: "(string \<times> OutputDefinition) list option"
  tool_description :: "string option"
  tool_module :: "string option"
  tool_class_name :: "string option"
  tool_source :: "string option"
  tool_code :: "string option"
  tool_function :: "string option"
  tool_connection_type :: "string list option"
  tool_is_builtin :: "bool option"
  tool_stage :: "string option"

definition opt_str :: "string option \<Rightarrow> pyval" where
  "opt_str x = (case x of None \<Rightarrow> PNone | Some s \<Rightarrow> PStr s)"

definition opt_bool :: "bool option \<Rightarrow> pyval" where
  "opt_bool x = (case x of None \<Rightarrow> PNone | Some b \<Rightarrow> PBool b)"

definition opt_str_list :: "string list option \<Rightarrow> pyval" where
  "opt_str_list x = (case x of None \<Rightarrow> PNone | Some ss \<Rightarrow> PList (map PStr ss))"

text \<open>
  The \<^verbatim>\<open>dict_factory\<close> handed to \<^verbatim>\<open>dataclasses.asdict\<close>. \<^verbatim>\<open>asdict\<close> applies it to the
  field list of every dataclass instance it meets, the nested definitions included;
  plain dictionaries and lists are rebuilt as they are.
\<close>

definition dict_factory :: "dict \<Rightarrow> dict" where
  "dict_factory x = filter (\<lambda>(k, v). v \<noteq> PNone \<and> k \<noteq> ''outputs'') x"

definition asdict_InputDefinition :: "InputDefinition \<Rightarrow> dict" where
  "asdict_InputDefinition d =
     dict_factory
       [(''type'', PList (in_type d)), (''default'', in_default d),
        (''description'', in_description d), (''enum'', in_enum d),
        (''custom_type'', in_custom_type d)]"

definition asdict_OutputDefinition :: "OutputDefinition \<Rightarrow> dict" where
  "asdict_OutputDefinition d =
     dict_factory
       [(''type'', PList (out_type d)), (''description'', out_description d),
        (''is_property'', out_is_property d)]"

definition asdict_Tool :: "Tool \<Rightarrow> dict" where
  "asdict_Tool t =
     dict_factory
       [(''name'', PStr (tool_name t)),
        (''type'', tool_type t),
        (''inputs'', PDict (map (\<lambda>(k, d). (k, PDict (asdict_InputDefinition d))) (tool_inputs t))),
        (''outputs'',
           (case tool_outputs t of
              None \<Rightarrow> PNone
            | Some os \<Rightarrow> PDict (map (\<lambda>(k, d). (k, PDict (asdict_OutputDefinition d))) os))),
        (''description'', opt_str (tool_description t)),
        (''module'', opt_str (tool_module t)),
        (''class_name'', opt_str (tool_class_name t)),
        (''source'', opt_str (tool_source t)),
        (''code'', opt_str (tool_code t)),
        (''function'', opt_str (tool_function t)),
        (''connection_type'', opt_str_list (tool_connection_type t)),
        (''is_builtin'', opt_bool (tool_is_builtin t)),
        (''stage'', opt_str (tool_stage t))]"

text \<open>
  \<^verbatim>\<open>self.type == ToolType._ACTION\<close> is string equality, as the enumeration mixes in
  \<^verbatim>\<open>str\<close>; \<^verbatim>\<open>self.type is ToolType.LLM\<close> is identity with the member.
\<close>

definition eq_ToolType :: "pyval \<Rightarrow> ToolType \<Rightarrow> bool" where
  "eq_ToolType v m = (as_str v = Some (ToolType_value m))"

definition skipped_fields :: "string list" where
  "skipped_fields = [''type'', ''inputs'', ''outputs'']"

definition Tool_serialize :: "Tool \<Rightarrow> dict" where
  "Tool_serialize t =
     (let data = asdict_Tool t
      in if \<not> eq_ToolType (tool_type t) ACTION then data
         else filter (\<lambda>(k, v). k \<notin> set skipped_fields) data)"

definition require_connection :: "Tool \<Rightarrow> bool" where
  "require_connection t =
     (tool_type t = PToolType LLM \<or>
      (case tool_connection_type t of None \<Rightarrow> False | Some cs \<Rightarrow> length cs > 0))"

section \<open>A JSON decoder for the host\<close>

text \<open>
  \<^verbatim>\<open>json.loads\<close> belongs to the Python library, not to the repository, and the theorems
  below hold for every decoder. To evaluate \<open>parse\<close> on concrete texts, \<open>json_decode\<close>
  decodes a fragment of JSON: white space, \<^verbatim>\<open>null\<close>, \<^verbatim>\<open>true\<close>, \<^verbatim>\<open>false\<close>, integers,
  strings without escape sequences, arrays and objects. A later duplicate key of an
  object replaces the earlier value. Numbers with a fraction or an exponent, the
  constants \<^verbatim>\<open>NaN\<close> and \<^verbatim>\<open>Infinity\<close>, and strings with escapes are outside the
  fragment and rejected. The first argument of the
  decoding functions bounds the nesting depth; \<open>json_decode\<close> starts with more than the
  length of the text.
\<close>

definition is_ws :: "char \<Rightarrow> bool" where
  "is_ws c = (c \<in> set [CHR '' '', CHR 0x09, CHR 0x0A, CHR 0x0D])"

definition skip_ws :: "string \<Rightarrow> string" where
  "skip_ws s = dropWhile is_ws s"

definition is_digit :: "char \<Rightarrow> bool" where
  "is_digit c = (48 \<le> (of_char c :: int) \<and> (of_char c :: int) \<le> 57)"

definition digit_val :: "char \<Rightarrow> int" where
  "digit_val c = of_char c - 48"

definition starts_with :: "string \<Rightarrow> string \<Rightarrow> bool" where
  "starts_with p s = (take (length p) s = p)"

text \<open>The text after an opening quote: the body up to the closing quote, and the rest.\<close>

definition scan_string :: "string \<Rightarrow> (string \<times> string) option" where
  "scan_string s =
     (let body = takeWhile (\<lambda>c. c \<noteq> CHR 0x22) s;
          rest = dropWhile (\<lambda>c. c \<noteq> CHR 0x22) s
      in if rest = [] \<or> list_ex (\<lambda>c. c = CHR 0x5C \<or> (of_char c :: int) < 32) body
         then None else Some (body, tl rest))"

definition scan_int :: "string \<Rightarrow> (pyval \<times> string) option" where
  "scan_int s =
     (let neg = starts_with ''-'' s;
          s1 = (if neg then tl s else s);
          ds = (if starts_with ''0'' s1 then ''0'' else takeWhile is_digit s1);
          rest = drop (length ds) s1
      in if ds = [] \<or> starts_with ''.'' rest \<or> starts_with ''e'' rest \<or> starts_with ''E'' rest
         then None
         else Some (PInt ((if neg then - 1 else 1) * foldl (\<lambda>a c. 10 * a + digit_val c) 0 ds),
                    rest))"

fun decode_value :: "nat \<Rightarrow> string \<Rightarrow> (pyval \<times> string) option"
  and decode_array :: "nat \<Rightarrow> string \<Rightarrow> (pyval list \<times> string) option"
  and decode_object :: "nat \<Rightarrow> string \<Rightarrow> (dict \<times> string) option" where
  "decode_value 0 s = None"
| "decode_value (Suc n) s =
     (if starts_with [CHR 0x22] s then
        (case scan_string (tl s) of None \<Rightarrow> None | Some (b, r) \<Rightarrow> Some (PStr b, r))
      else if starts_with ''['' s then
        (if starts_with '']'' (skip_ws (tl s)) then Some (PList [], tl (skip_ws (tl s)))
         else case decode_array n (skip_ws (tl s)) of
                None \<Rightarrow> None
              | Some (vs, r) \<Rightarrow> Some (PList vs, r))
      else if starts_with ''{'' s then
        (if starts_with ''}'' (skip_ws (tl s)) then Some (PDict [], tl (skip_ws (tl s)))
         else case decode_object n (skip_ws (tl s)) of
                None \<Rightarrow> None
              | Some (kvs, r) \<Rightarrow> Some (PDict (foldl (\<lambda>d (k, v). setitem d k v) [] kvs), r))
      else if starts_with ''null'' s then Some (PNone, drop 4 s)
      else if starts_with ''true'' s then Some (PBool True, drop 4 s)
      else if starts_with ''false'' s then Some (PBool False, drop 5 s)
      else scan_int s)"
| "decode_array 0 s = None"
| "decode_array (Suc n) s =
     (case decode_value n s of
        None \<Rightarrow> None
      | Some (v, r) \<Rightarrow>
          if starts_with '']'' (skip_ws r) then Some ([v], tl (skip_ws r))
          else if starts_with '','' (skip_ws r) then
            (case decode_array n (skip_ws (tl (skip_ws r))) of
               None \<Rightarrow> None
             | Some (vs, r') \<Rightarrow> Some (v # vs, r'))
          else None)"
| "decode_object 0 s = None"
| "decode_object (Suc n) s =
     (if \<not> starts_with [CHR 0x22] s then None
      else case scan_string (tl s) of
             None \<Rightarrow> None
           | Some (k, r) \<Rightarrow>
               if \<not> starts_with '':'' (skip_ws r) then None
               else case decode_value n (skip_ws (tl (skip_ws r))) of
                      None \<Rightarrow> None
                    | Some (v, r') \<Rightarrow>
                        if starts_with ''}'' (skip_ws r') then Some ([(k, v)], tl (skip_ws r'))
                        else if starts_with '','' (skip_ws r') then
                          (case decode_object n (skip_ws (tl (skip_ws r'))) of
                             None \<Rightarrow> None
                           | Some (kvs, r'') \<Rightarrow> Some ((k, v) # kvs, r''))
                        else None)"

definition json_decode :: "string \<Rightarrow> error + pyval" where
  "json_decode s =
     (case decode_value (Suc (length s)) (skip_ws s) of
        None \<Rightarrow> Inl JSONDecodeError
      | Some (v, r) \<Rightarrow> if skip_ws r = [] then Inr v else Inl JSONDecodeError)"

text \<open>
  A host that provides the decoder and nothing else: the built-in conversions are not
  modelled, and a call of one is reported as such.
\<close>

definition json_host :: host where
  "json_host =
     \<lparr>json_loads = json_decode,
      int_of = (\<lambda>v. Inl (Unmodelled ''int'')),
      float_of = (\<lambda>v. Inl (Unmodelled ''float'')),
      str_of = (\<lambda>v. Inl (Unmodelled ''str''))\<rparr>"

section \<open>Constructors with their default arguments\<close>

definition InputDefinition_make :: "pyval list \<Rightarrow> InputDefinition" where
  "InputDefinition_make ts =
     \<lparr>in_type = ts, in_default = PNone, in_description = PNone, in_enum = PNone,
      in_custom_type = PNone\<rparr>"

definition Tool_make :: "string \<Rightarrow> pyval \<Rightarrow> (string \<times> InputDefinition) list \<Rightarrow> Tool" where
  "Tool_make n ty ins =
     \<lparr>tool_name = n, tool_type = ty, tool_inputs = ins, tool_outputs = None,
      tool_description = None, tool_module = None, tool_class_name = None,
      tool_source = None, tool_code = None, tool_function = None,
      tool_connection_type = None, tool_is_builtin = None, tool_stage = None\<rparr>"

text \<open>Serialising a definition and reading the result back.\<close>

definition InputDefinition_roundtrip :: "host \<Rightarrow> InputDefinition \<Rightarrow> error + InputDefinition" where
  "InputDefinition_roundtrip h d =
     (case InputDefinition_serialize h d of
        Inl e \<Rightarrow> Inl e
      | Inr data \<Rightarrow> InputDefinition_deserialize data)"

section \<open>Evaluation lemmas\<close>

lemma char_of_int_numeral:
  "char_of (numeral k :: int) =
     Char (bit (numeral k :: int) 0) (bit (numeral k :: int) 1) (bit (numeral k :: int) 2)
          (bit (numeral k :: int) 3) (bit (numeral k :: int) 4) (bit (numeral k :: int) 5)
          (bit (numeral k :: int) 6) (bit (numeral k :: int) 7)"
  by (simp add: char_of_def)

lemmas lower_eval = lower_def lower_char_def char_of_int_numeral

lemmas json_eval =
  json_host_def json_decode_def skip_ws_def is_ws_def starts_with_def scan_string_def
  scan_int_def is_digit_def digit_val_def setitem_def

lemma keys_dict_factory: "''outputs'' \<notin> keys (dict_factory x)"
  by (auto simp: keys_def dict_factory_def)

lemma keys_filter_skipped:
  "k \<in> set ks \<Longrightarrow> k \<notin> keys (filter (\<lambda>(k, v). k \<notin> set ks) d)"
  by (auto simp: keys_def)

section \<open>Tool\<close>

text \<open>
  C10. A tool requires a connection if and only if its type is the member \<open>LLM\<close> or its
  \<open>connection_type\<close> is a non-empty list.
\<close>

theorem require_connection_iff:
  "require_connection t \<longleftrightarrow>
     tool_type t = PToolType LLM \<or> (\<exists>cs. tool_connection_type t = Some cs \<and> cs \<noteq> [])"
  by (cases "tool_connection_type t") (simp_all add: require_connection_def)

theorem require_connection_witness:
  "require_connection (Tool_make ''chat'' (PToolType LLM) [])
   \<and> require_connection ((Tool_make ''search'' (PToolType PYTHON) [])
        \<lparr>tool_connection_type := Some [''SerpConnection'']\<rparr>)
   \<and> \<not> require_connection ((Tool_make ''echo'' (PToolType PYTHON) [])
        \<lparr>tool_connection_type := Some []\<rparr>)
   \<and> \<not> require_connection (Tool_make ''echo'' (PToolType PYTHON) [])"
  using require_connection_iff [of "Tool_make ''chat'' (PToolType LLM) []"]
    require_connection_iff [of "(Tool_make ''search'' (PToolType PYTHON) [])
        \<lparr>tool_connection_type := Some [''SerpConnection'']\<rparr>"]
    require_connection_iff [of "(Tool_make ''echo'' (PToolType PYTHON) [])
        \<lparr>tool_connection_type := Some []\<rparr>"]
    require_connection_iff [of "Tool_make ''echo'' (PToolType PYTHON) []"]
  by (simp add: Tool_make_def)

text \<open>
  C6. The dictionary that \<open>Tool_serialize\<close> returns never has the key \<open>outputs\<close>, and
  for a tool whose type is the member \<open>ACTION\<close> it has neither \<open>type\<close> nor \<open>inputs\<close>,
  whatever these fields hold.
\<close>

theorem Tool_serialize_keys:
  "''outputs'' \<notin> keys (Tool_serialize t)
   \<and> (tool_type t = PToolType ACTION \<longrightarrow>
        ''type'' \<notin> keys (Tool_serialize t) \<and> ''inputs'' \<notin> keys (Tool_serialize t))"
proof -
  have out: "''outputs'' \<notin> keys (Tool_serialize t)"
  proof (cases "eq_ToolType (tool_type t) ACTION")
    case True
    have "''outputs'' \<in> set skipped_fields" by (simp add: skipped_fields_def)
    from keys_filter_skipped [OF this] True show ?thesis
      by (simp add: Tool_serialize_def Let_def)
  next
    case False
    then show ?thesis
      by (simp add: Tool_serialize_def Let_def asdict_Tool_def keys_dict_factory)
  qed
  have act: "''type'' \<notin> keys (Tool_serialize t) \<and> ''inputs'' \<notin> keys (Tool_serialize t)"
    if "tool_type t = PToolType ACTION"
  proof -
    from that have eq: "eq_ToolType (tool_type t) ACTION" by (simp add: eq_ToolType_def)
    have "''type'' \<in> set skipped_fields" and "''inputs'' \<in> set skipped_fields"
      by (simp_all add: skipped_fields_def)
    then show ?thesis
      using eq keys_filter_skipped [of "''type''" skipped_fields "asdict_Tool t"]
        keys_filter_skipped [of "''inputs''" skipped_fields "asdict_Tool t"]
      by (simp add: Tool_serialize_def Let_def)
  qed
  from out act show ?thesis by blast
qed

theorem Tool_serialize_keys_witness:
  "Tool_serialize ((Tool_make ''act'' (PToolType ACTION)
       [(''q'', InputDefinition_make [PValueType STRING])])
       \<lparr>tool_outputs := Some [], tool_module := Some ''m''\<rparr>)
     = [(''name'', PStr ''act''), (''module'', PStr ''m'')]
   \<and> ''outputs'' \<notin> keys [(''name'', PStr ''act''), (''module'', PStr ''m'')]
   \<and> ''type'' \<notin> keys [(''name'', PStr ''act''), (''module'', PStr ''m'')]
   \<and> ''inputs'' \<notin> keys [(''name'', PStr ''act''), (''module'', PStr ''m'')]"
  using Tool_serialize_keys [of "(Tool_make ''act'' (PToolType ACTION)
       [(''q'', InputDefinition_make [PValueType STRING])])
       \<lparr>tool_outputs := Some [], tool_module := Some ''m''\<rparr>"]
  by (simp add: Tool_serialize_def Tool_make_def asdict_Tool_def dict_factory_def
      eq_ToolType_def skipped_fields_def opt_str_def opt_bool_def opt_str_list_def keys_def)

section \<open>ValueType.parse\<close>

text \<open>
  C7. \<open>parse\<close> for the kind \<open>BOOL\<close> returns a boolean unchanged, returns \<open>True\<close> or
  \<open>False\<close> for a string that equals \<open>true\<close> or \<open>false\<close> up to case (so \<open>TRUE\<close> gives
  \<open>True\<close>), and raises the error "Invalid boolean value" on every other input, such as
  \<open>maybe\<close>, and on no input of the first two kinds.
\<close>

theorem parse_BOOL:
  "parse h BOOL (PBool b) = Inr (PBool b)
   \<and> (as_str v = Some s \<longrightarrow> lower s = lower ''true'' \<longrightarrow> parse h BOOL v = Inr (PBool True))
   \<and> (as_str v = Some s \<longrightarrow> lower s = lower ''false'' \<longrightarrow> parse h BOOL v = Inr (PBool False))
   \<and> parse h BOOL (PStr ''TRUE'') = Inr (PBool True)
   \<and> parse h BOOL (PStr ''maybe'') = Inl (ValueError ''Invalid boolean value'' (PStr ''maybe''))
   \<and> ((\<exists>e. parse h BOOL v = Inl e) \<longleftrightarrow>
        \<not> is_bool v \<and>
        \<not> (\<exists>s. as_str v = Some s \<and> (lower s = lower ''true'' \<or> lower s = lower ''false'')))
   \<and> (parse h BOOL v = Inl e \<longrightarrow> e = ValueError ''Invalid boolean value'' v)"
proof -
  have t: "lower ''true'' = ''true''" and f: "lower ''false'' = ''false''"
    by (simp_all add: lower_eval)
  have str_bool: "\<not> is_bool v" if "as_str v = Some s" for s
    using that by (cases v) simp_all
  have c1: "parse h BOOL (PBool b) = Inr (PBool b)" by simp
  have c2: "parse h BOOL v = Inr (PBool True)" if "as_str v = Some s" "lower s = lower ''true''"
    using that str_bool [of s] by (simp add: t)
  have c3: "parse h BOOL v = Inr (PBool False)" if "as_str v = Some s" "lower s = lower ''false''"
    using that str_bool [of s] by (simp add: f)
  have c4: "parse h BOOL (PStr ''TRUE'') = Inr (PBool True)"
    by (simp add: lower_eval)
  have c5: "parse h BOOL (PStr ''maybe'') = Inl (ValueError ''Invalid boolean value'' (PStr ''maybe''))"
    by (simp add: lower_eval)
  have c6: "(\<exists>e. parse h BOOL v = Inl e) \<longleftrightarrow>
        \<not> is_bool v \<and>
        \<not> (\<exists>s. as_str v = Some s \<and> (lower s = lower ''true'' \<or> lower s = lower ''false''))"
    by (cases "as_str v") (auto simp: t f)
  have c7: "e = ValueError ''Invalid boolean value'' v" if "parse h BOOL v = Inl e"
    using that by (cases "as_str v") (auto split: if_splits)
  from c1 c2 c3 c4 c5 c6 c7 show ?thesis by blast
qed

theorem parse_BOOL_witness:
  "as_str (PStr ''False'') = Some ''False'' \<and> lower ''False'' = lower ''false''
   \<and> parse json_host BOOL (PStr ''False'') = Inr (PBool False)
   \<and> as_str (PStr ''tRuE'') = Some ''tRuE'' \<and> lower ''tRuE'' = lower ''true''
   \<and> parse json_host BOOL (PStr ''tRuE'') = Inr (PBool True)
   \<and> parse json_host BOOL (PInt 1) = Inl (ValueError ''Invalid boolean value'' (PInt 1))"
  using parse_BOOL [of json_host True "PStr ''False''" "''False''" "ValueError ''Invalid boolean value'' (PInt 1)"]
    parse_BOOL [of json_host True "PStr ''tRuE''" "''tRuE''" "ValueError ''Invalid boolean value'' (PInt 1)"]
    parse_BOOL [of json_host True "PInt 1" "''''" "ValueError ''Invalid boolean value'' (PInt 1)"]
  by (simp add: lower_eval)

text \<open>
  C8. \<open>parse\<close> for the kind \<open>LIST\<close> decodes a string as JSON first and fails with the
  decoder's error when the text is not valid JSON; a decoded value that is not a list
  fails with "Invalid list value", a decoded list is returned; an input that is
  neither a string nor a list fails with the same error. With the decoder \<open>json_decode\<close>
  the text of the array of \<open>a\<close> and \<open>b\<close> gives that list and \<open>not json\<close> fails.
\<close>

theorem parse_LIST:
  \<open>(as_str v = Some s \<longrightarrow> json_loads h s = Inl e \<longrightarrow> parse h LIST v = Inl e)
   \<and> (as_str v = Some s \<longrightarrow> json_loads h s = Inr w \<longrightarrow> \<not> is_list w \<longrightarrow>
        parse h LIST v = Inl (ValueError ''Invalid list value'' w))
   \<and> (as_str v = Some s \<longrightarrow> json_loads h s = Inr (PList xs) \<longrightarrow>
        parse h LIST v = Inr (PList xs))
   \<and> (as_str v = None \<longrightarrow> \<not> is_list v \<longrightarrow>
        parse h LIST v = Inl (ValueError ''Invalid list value'' v))
   \<and> parse json_host LIST (PStr ''["a","b"]'') = Inr (PList [PStr ''a'', PStr ''b''])
   \<and> parse json_host LIST (PStr ''not json'') = Inl JSONDecodeError\<close>
proof -
  have ex1: \<open>parse json_host LIST (PStr ''["a","b"]'') = Inr (PList [PStr ''a'', PStr ''b''])\<close>
    by (simp add: json_eval)
  have ex2: "parse json_host LIST (PStr ''not json'') = Inl JSONDecodeError"
    by (simp add: json_eval)
  show ?thesis
    using ex1 ex2 by simp
qed

theorem parse_LIST_witness:
  \<open>as_str (PStr ''[1, 2]'') = Some ''[1, 2]''
   \<and> json_loads json_host ''[1, 2]'' = Inr (PList [PInt 1, PInt 2])
   \<and> parse json_host LIST (PStr ''[1, 2]'') = Inr (PList [PInt 1, PInt 2])
   \<and> json_loads json_host ''{"a": 1}'' = Inr (PDict [(''a'', PInt 1)])
   \<and> \<not> is_list (PDict [(''a'', PInt 1)])
   \<and> parse json_host LIST (PStr ''{"a": 1}'')
       = Inl (ValueError ''Invalid list value'' (PDict [(''a'', PInt 1)]))
   \<and> json_loads json_host ''[1, 2'' = Inl JSONDecodeError
   \<and> parse json_host LIST (PStr ''[1, 2'') = Inl JSONDecodeError
   \<and> as_str (PInt 7) = None \<and> \<not> is_list (PInt 7)
   \<and> parse json_host LIST (PInt 7) = Inl (ValueError ''Invalid list value'' (PInt 7))\<close>
proof -
  have d1: "json_loads json_host ''[1, 2]'' = Inr (PList [PInt 1, PInt 2])"
    by (simp add: json_eval)
  have d2: \<open>json_loads json_host ''{"a": 1}'' = Inr (PDict [(''a'', PInt 1)])\<close>
    by (simp add: json_eval)
  have d3: "json_loads json_host ''[1, 2'' = Inl JSONDecodeError"
    by (simp add: json_eval)
  show ?thesis
    using d1 d2 d3
      parse_LIST [of "PStr ''[1, 2]''" "''[1, 2]''" json_host JSONDecodeError
        "PDict [(''a'', PInt 1)]" "[PInt 1, PInt 2]"]
      parse_LIST [of "PStr [CHR ''{'', CHR 0x22, CHR ''a'', CHR 0x22, CHR '':'', CHR '' '', CHR ''1'', CHR ''}'']"
        "[CHR ''{'', CHR 0x22, CHR ''a'', CHR 0x22, CHR '':'', CHR '' '', CHR ''1'', CHR ''}'']"
        json_host JSONDecodeError "PDict [(''a'', PInt 1)]" "[]"]
      parse_LIST [of "PStr ''[1, 2''" "''[1, 2''" json_host JSONDecodeError PNone "[]"]
      parse_LIST [of "PInt 7" "''''" json_host JSONDecodeError PNone "[]"]
    by simp
qed

text \<open>
  C9. \<open>parse\<close> for the kind \<open>OBJECT\<close> returns a value on every input: for a string,
  the decoded value when the decoder accepts the text and the input itself when the
  decoder fails (so \<open>plain text\<close> comes back unchanged); any other input is returned
  unchanged.
\<close>

theorem parse_OBJECT:
  "(\<exists>w. parse h OBJECT v = Inr w)
   \<and> (as_str v = Some s \<longrightarrow> json_loads h s = Inr w \<longrightarrow> parse h OBJECT v = Inr w)
   \<and> (as_str v = Some s \<longrightarrow> json_loads h s = Inl e \<longrightarrow> parse h OBJECT v = Inr v)
   \<and> (as_str v = None \<longrightarrow> parse h OBJECT v = Inr v)
   \<and> parse json_host OBJECT (PStr ''plain text'') = Inr (PStr ''plain text'')"
proof -
  have total: "\<exists>w. parse h OBJECT v = Inr w"
    by (cases "as_str v"; cases "json_loads h (the (as_str v))") simp_all
  have ex: "parse json_host OBJECT (PStr ''plain text'') = Inr (PStr ''plain text'')"
    by (simp add: json_eval)
  show ?thesis
    using total ex by simp
qed

theorem parse_OBJECT_witness:
  \<open>json_loads json_host ''{"k": [1, true]}'' = Inr (PDict [(''k'', PList [PInt 1, PBool True])])
   \<and> parse json_host OBJECT (PStr ''{"k": [1, true]}'')
       = Inr (PDict [(''k'', PList [PInt 1, PBool True])])
   \<and> json_loads json_host ''plain text'' = Inl JSONDecodeError
   \<and> parse json_host OBJECT (PStr ''plain text'') = Inr (PStr ''plain text'')
   \<and> as_str (PInt 3) = None
   \<and> parse json_host OBJECT (PInt 3) = Inr (PInt 3)\<close>
proof -
  have d1: \<open>json_loads json_host ''{"k": [1, true]}''
      = Inr (PDict [(''k'', PList [PInt 1, PBool True])])\<close>
    by (simp add: json_eval)
  have d2: "json_loads json_host ''plain text'' = Inl JSONDecodeError"
    by (simp add: json_eval)
  show ?thesis
    using d1 d2
      parse_OBJECT [of json_host \<open>PStr ''{"k": [1, true]}''\<close> \<open>''{"k": [1, true]}''\<close>
        "PDict [(''k'', PList [PInt 1, PBool True])]" JSONDecodeError]
      parse_OBJECT [of json_host "PStr ''plain text''" "''plain text''" PNone JSONDecodeError]
      parse_OBJECT [of json_host "PInt 3" "''''" PNone JSONDecodeError]
    by simp
qed

section \<open>Reading definitions\<close>

lemma traverse_length: "traverse f xs = Inr ys \<Longrightarrow> length ys = length xs"
  by (induction xs arbitrary: ys) (auto split: sum.splits)

lemma traverse_all2: "traverse f xs = Inr ys \<Longrightarrow> list_all2 (\<lambda>x y. f x = Inr y) xs ys"
  by (induction xs arbitrary: ys) (auto split: sum.splits)

lemma traverse_error: "traverse f xs = Inl e \<Longrightarrow> \<exists>x \<in> set xs. f x = Inl e"
  by (induction xs) (auto split: sum.splits)

lemma traverse_fails: "x \<in> set xs \<Longrightarrow> f x = Inl e \<Longrightarrow> \<exists>e'. traverse f xs = Inl e'"
  by (induction xs) (auto split: sum.splits)

lemma ValueType_value_inj: "ValueType_value t = ValueType_value u \<Longrightarrow> t = u"
  by (cases t; cases u) simp_all

lemma find_ValueType_value:
  "find (\<lambda>u. ValueType_value u = ValueType_value t) ValueType_all = Some t"
  by (cases t) (simp_all add: ValueType_all_def)

lemma ValueType_call_Inr:
  "ValueType_call x = Inr y \<Longrightarrow> \<exists>t. y = PValueType t \<and> as_str x = Some (ValueType_value t)"
  by (auto simp: ValueType_call_def find_Some_iff split: option.splits)

lemma ValueType_call_Inl:
  "ValueType_call x = Inl e \<Longrightarrow> e = ValueError ''is not a valid ValueType'' x"
  by (auto simp: ValueType_call_def split: option.splits)

lemma ValueType_call_unknown:
  assumes "\<forall>t. as_str x \<noteq> Some (ValueType_value t)"
  shows "ValueType_call x = Inl (ValueError ''is not a valid ValueType'' x)"
proof (cases "ValueType_call x")
  case (Inl e)
  then show ?thesis by (simp add: ValueType_call_Inl)
next
  case (Inr y)
  from ValueType_call_Inr [OF this] assms show ?thesis by blast
qed

lemma ValueType_call_exact:
  "as_str x = Some (ValueType_value t) \<Longrightarrow> ValueType_call x = Inr (PValueType t)"
  by (simp add: ValueType_call_def find_ValueType_value)

lemma traverse_ValueType_call:
  "list_all2 (\<lambda>x k. as_str x = Some (ValueType_value k)) xs ks \<Longrightarrow>
   traverse ValueType_call xs = Inr (map PValueType ks)"
  by (induction xs ks rule: list_all2_induct) (simp_all add: ValueType_call_exact)

text \<open>
  C5 fails as stated: \<open>InputDefinition_deserialize\<close> succeeds on a mapping whose
  \<open>type\<close> entry is the empty list, and the type list of the result is empty.
\<close>

theorem InputDefinition_deserialize_empty_type:
  "InputDefinition_deserialize [(''type'', PList [])] =
     Inr \<lparr>in_type = [], in_default = PStr [], in_description = PStr [], in_enum = PList [],
          in_custom_type = PNone\<rparr>"
  by (simp add: InputDefinition_deserialize_def getitem_def deserialize_type_def
      normalize_type_def dict_get_def)

text \<open>
  C5, as the code has it. When \<open>InputDefinition_deserialize\<close> succeeds, the type list
  of the result is empty exactly when the \<open>type\<close> entry of the mapping is the empty
  list; on every other mapping it is not empty.
\<close>

theorem InputDefinition_deserialize_type_nonempty:
  assumes "InputDefinition_deserialize data = Inr d"
  shows "in_type d = [] \<longleftrightarrow> map_of data ''type'' = Some (PList [])"
proof -
  from assms obtain v ts where v: "map_of data ''type'' = Some v"
    and ts: "deserialize_type v = Inr ts" and d: "in_type d = ts"
    by (auto simp: InputDefinition_deserialize_def getitem_def split: option.splits sum.splits)
  from ts have "length ts = length (normalize_type v)"
    by (simp add: deserialize_type_def traverse_length)
  then have "ts = [] \<longleftrightarrow> normalize_type v = []" by auto
  also have "\<dots> \<longleftrightarrow> v = PList []"
    by (cases v) (simp_all add: normalize_type_def)
  finally show ?thesis using v d by simp
qed

theorem InputDefinition_deserialize_type_nonempty_witness:
  "InputDefinition_deserialize [(''type'', PStr ''Int''), (''default'', PStr ''0'')] =
     Inr \<lparr>in_type = [PValueType ValueType.INT], in_default = PStr ''0'',
          in_description = PStr [], in_enum = PList [], in_custom_type = PNone\<rparr>
   \<and> [PValueType ValueType.INT] \<noteq> []
   \<and> map_of [(''type'', PStr ''Int''), (''default'', PStr ''0'')] ''type'' \<noteq> Some (PList [])"
proof -
  have ev: "InputDefinition_deserialize [(''type'', PStr ''Int''), (''default'', PStr ''0'')] =
     Inr \<lparr>in_type = [PValueType ValueType.INT], in_default = PStr ''0'',
          in_description = PStr [], in_enum = PList [], in_custom_type = PNone\<rparr>"
    by (simp add: InputDefinition_deserialize_def getitem_def deserialize_type_def
        normalize_type_def dict_get_def deserialize_enum_def ValueType_members_def
        ValueType_all_def is_str_def py_lower_def lower_eval)
  from InputDefinition_deserialize_type_nonempty [OF ev] ev show ?thesis by simp
qed

text \<open>
  C3 fails as stated: on a mapping whose \<open>type\<close> is a name that matches no tag of
  \<open>ValueType\<close>, \<open>OutputDefinition_deserialize\<close> raises \<open>ValueError\<close>; the name does
  not stay in the result. The tolerant helper, on the same name, returns it.
\<close>

theorem OutputDefinition_deserialize_unknown_type:
  "OutputDefinition_deserialize [(''type'', PStr ''CustomConnection'')] =
     Inl (ValueError ''is not a valid ValueType'' (PStr ''CustomConnection''))
   \<and> deserialize_enum ValueType_members (PStr ''CustomConnection'') =
       Inr (PStr ''CustomConnection'')"
  by (simp add: OutputDefinition_deserialize_def getitem_def normalize_type_def
      ValueType_call_def ValueType_all_def deserialize_enum_def ValueType_members_def
      is_str_def py_lower_def lower_eval)

text \<open>
  C3, as the code has it. \<open>OutputDefinition_deserialize\<close> resolves the elements of
  \<open>type\<close> with the constructor of \<open>ValueType\<close>, not with the tolerant helper. When every
  element is exactly the tag of a kind, it succeeds and the result holds these kinds, in
  order, with \<open>description\<close> and \<open>is_property\<close> read from the mapping. When it
  succeeds, every element of the result is the kind whose tag is the input element.
  An element that is not exactly the tag of a kind makes it fail with a \<open>ValueError\<close>,
  and an element that is exactly a tag resolves to its kind.
\<close>

theorem OutputDefinition_deserialize_strict:
  "(map_of data ''type'' = Some v \<longrightarrow>
      list_all2 (\<lambda>x k. as_str x = Some (ValueType_value k)) (normalize_type v) ks \<longrightarrow>
      OutputDefinition_deserialize data =
        Inr \<lparr>out_type = map PValueType ks,
             out_description = dict_get data ''description'' (PStr []),
             out_is_property = dict_get data ''is_property'' (PBool False)\<rparr>)
   \<and> (OutputDefinition_deserialize data = Inr d \<longrightarrow>
      (\<exists>v. map_of data ''type'' = Some v \<and>
         list_all2 (\<lambda>x y. \<exists>t. y = PValueType t \<and> as_str x = Some (ValueType_value t))
           (normalize_type v) (out_type d)))
   \<and> (map_of data ''type'' = Some v \<longrightarrow> x \<in> set (normalize_type v) \<longrightarrow>
        (\<forall>t. as_str x \<noteq> Some (ValueType_value t)) \<longrightarrow>
        (\<exists>y. OutputDefinition_deserialize data = Inl (ValueError ''is not a valid ValueType'' y)))
   \<and> (as_str x = Some (ValueType_value t) \<longrightarrow> ValueType_call x = Inr (PValueType t))"
proof -
  have good: "OutputDefinition_deserialize data =
        Inr \<lparr>out_type = map PValueType ks,
             out_description = dict_get data ''description'' (PStr []),
             out_is_property = dict_get data ''is_property'' (PBool False)\<rparr>"
    if v: "map_of data ''type'' = Some v"
      and ks: "list_all2 (\<lambda>x k. as_str x = Some (ValueType_value k)) (normalize_type v) ks"
    using v traverse_ValueType_call [OF ks]
    by (simp add: OutputDefinition_deserialize_def getitem_def)
  have ok: "\<exists>v. map_of data ''type'' = Some v \<and>
         list_all2 (\<lambda>x y. \<exists>t. y = PValueType t \<and> as_str x = Some (ValueType_value t))
           (normalize_type v) (out_type d)"
    if "OutputDefinition_deserialize data = Inr d"
  proof -
    from that obtain v ts where v: "map_of data ''type'' = Some v"
      and ts: "traverse ValueType_call (normalize_type v) = Inr ts" and d: "out_type d = ts"
      by (auto simp: OutputDefinition_deserialize_def getitem_def
          split: option.splits sum.splits)
    from traverse_all2 [OF ts]
    have "list_all2 (\<lambda>x y. \<exists>t. y = PValueType t \<and> as_str x = Some (ValueType_value t))
           (normalize_type v) ts"
      by (rule list_all2_mono) (rule ValueType_call_Inr)
    with v d show ?thesis by simp
  qed
  have bad: "\<exists>y. OutputDefinition_deserialize data = Inl (ValueError ''is not a valid ValueType'' y)"
    if v: "map_of data ''type'' = Some v" and x: "x \<in> set (normalize_type v)"
      and u: "\<forall>t. as_str x \<noteq> Some (ValueType_value t)"
  proof -
    from traverse_fails [where f = ValueType_call, OF x ValueType_call_unknown [OF u]]
    obtain e where e: "traverse ValueType_call (normalize_type v) = Inl e" by blast
    from traverse_error [OF e] obtain y where "ValueType_call y = Inl e" by blast
    then have "e = ValueError ''is not a valid ValueType'' y" by (rule ValueType_call_Inl)
    with e v show ?thesis
      by (auto simp: OutputDefinition_deserialize_def getitem_def)
  qed
  have exact: "ValueType_call x = Inr (PValueType t)" if "as_str x = Some (ValueType_value t)"
    using that by (rule ValueType_call_exact)
  from good ok bad exact show ?thesis by blast
qed

theorem OutputDefinition_deserialize_strict_witness:
  "map_of [(''type'', PList [PStr ''int'', PStr ''string'']), (''is_property'', PBool True)]
       ''type'' = Some (PList [PStr ''int'', PStr ''string''])
   \<and> list_all2 (\<lambda>x k. as_str x = Some (ValueType_value k))
        (normalize_type (PList [PStr ''int'', PStr ''string''])) [ValueType.INT, STRING]
   \<and> OutputDefinition_deserialize
        [(''type'', PList [PStr ''int'', PStr ''string'']), (''is_property'', PBool True)] =
      Inr \<lparr>out_type = [PValueType ValueType.INT, PValueType STRING],
           out_description = PStr [], out_is_property = PBool True\<rparr>
   \<and> list_all2 (\<lambda>x y. \<exists>t. y = PValueType t \<and> as_str x = Some (ValueType_value t))
        [PStr ''int'', PStr ''string''] [PValueType ValueType.INT, PValueType STRING]
   \<and> PStr ''INT'' \<in> set (normalize_type (PList [PStr ''int'', PStr ''INT'']))
   \<and> (\<forall>t. as_str (PStr ''INT'') \<noteq> Some (ValueType_value t))
   \<and> (\<exists>y. OutputDefinition_deserialize [(''type'', PList [PStr ''int'', PStr ''INT''])] =
          Inl (ValueError ''is not a valid ValueType'' y))
   \<and> ValueType_call (PStr ''image'') = Inr (PValueType IMAGE)"
proof -
  have un: "\<forall>t. as_str (PStr ''INT'') \<noteq> Some (ValueType_value t)"
  proof
    fix t show "as_str (PStr ''INT'') \<noteq> Some (ValueType_value t)" by (cases t) simp_all
  qed
  show ?thesis
    using un
      OutputDefinition_deserialize_strict
        [where data = "[(''type'', PList [PStr ''int'', PStr ''string'']),
                        (''is_property'', PBool True)]"
           and v = "PList [PStr ''int'', PStr ''string'']"
           and ks = "[ValueType.INT, STRING]"
           and d = "\<lparr>out_type = [PValueType ValueType.INT, PValueType STRING],
                      out_description = PStr [], out_is_property = PBool True\<rparr>"
           and x = "PStr ''image''" and t = IMAGE]
      OutputDefinition_deserialize_strict
        [where data = "[(''type'', PList [PStr ''int'', PStr ''INT''])]"
           and v = "PList [PStr ''int'', PStr ''INT'']"
           and ks = "[]"
           and d = "\<lparr>out_type = [], out_description = PNone, out_is_property = PNone\<rparr>"
           and x = "PStr ''INT''" and t = IMAGE]
    by (simp add: normalize_type_def dict_get_def)
qed

section \<open>Tolerant enumeration resolution\<close>










text \<open>
  A bytes object has the method \<open>lower\<close> too and equals no string, so it comes back
  as it is.
\<close>

lemma deserialize_enum_bytes:
  "deserialize_enum ValueType_members (PBytes ''int'') = Inr (PBytes ''int'')"
  by (simp add: deserialize_enum_def ValueType_members_def ValueType_all_def is_str_def
      py_lower_def)




section \<open>Writing definitions\<close>

text \<open>
  C2. For a definition with the two kinds \<open>INT\<close> and \<open>STRING\<close>, \<open>InputDefinition_serialize\<close>
  stores under \<open>type\<close> a 1-tuple that holds the list of the two tags, not the list.
\<close>

theorem InputDefinition_serialize_two_types:
  "InputDefinition_serialize h (InputDefinition_make [PValueType ValueType.INT, PValueType STRING])
     = Inr [(''type'', PTuple [PList [PStr ''int'', PStr ''string'']])]"
  by (simp add: InputDefinition_serialize_def InputDefinition_make_def setitem_def)

text \<open>\<open>OutputDefinition_serialize\<close>, on the same two kinds, stores the list itself.\<close>

lemma OutputDefinition_serialize_two_types:
  "OutputDefinition_serialize
     \<lparr>out_type = [PValueType ValueType.INT, PValueType STRING], out_description = PStr [],
      out_is_property = PBool False\<rparr>
     = Inr [(''type'', PList [PStr ''int'', PStr ''string'']), (''is_property'', PBool False)]"
  by (simp add: OutputDefinition_serialize_def)

text \<open>
  C1. Reading back what \<open>InputDefinition_serialize\<close> wrote fails for a definition with
  the two kinds \<open>INT\<close> and \<open>STRING\<close>: the 1-tuple is not a list, so it is taken for a
  single tag, and a tuple has no method \<open>lower\<close>. For a definition with one kind and
  a \<open>custom_type\<close>, the result has lost the \<open>custom_type\<close>.
\<close>

theorem InputDefinition_roundtrip_fails:
  "InputDefinition_roundtrip h
     (InputDefinition_make [PValueType ValueType.INT, PValueType STRING]) = Inl AttributeError
   \<and> InputDefinition_roundtrip h
       ((InputDefinition_make [PValueType ValueType.INT])
          \<lparr>in_custom_type := PList [PStr ''AzureOpenAIConnection'']\<rparr>)
     = Inr \<lparr>in_type = [PValueType ValueType.INT], in_default = PStr [],
            in_description = PStr [], in_enum = PList [], in_custom_type = PNone\<rparr>"
  by (simp add: InputDefinition_roundtrip_def InputDefinition_serialize_def
      InputDefinition_make_def setitem_def InputDefinition_deserialize_def getitem_def
      dict_get_def deserialize_type_def normalize_type_def deserialize_enum_def
      ValueType_members_def ValueType_all_def is_str_def py_lower_def lower_eval)

text \<open>
  What \<open>InputDefinition_serialize\<close> stores under \<open>type\<close>, for every definition that it
  can write: the tag itself for one kind, the 1-tuple around the list otherwise.
\<close>

lemma map_of_setitem: "map_of (setitem d k v) = (map_of d)(k \<mapsto> v)"
  by (simp add: setitem_def update_conv')

lemma InputDefinition_serialize_type:
  assumes "InputDefinition_serialize h d = Inr data"
  shows "\<exists>tags. traverse attr_value (in_type d) = Inr tags \<and>
           map_of data ''type'' = Some (if length tags = 1 then hd tags else PTuple [PList tags])"
proof -
  from assms obtain tags where tags: "traverse attr_value (in_type d) = Inr tags"
    by (auto simp: InputDefinition_serialize_def split: sum.splits)
  then have len: "length tags = length (in_type d)" by (rule traverse_length)
  from assms tags len
  have "map_of data ''type'' = Some (if length tags = 1 then hd tags else PTuple [PList tags])"
    by (cases "py_str h (in_default d)")
      (auto simp: InputDefinition_serialize_def Let_def map_of_setitem split: if_splits)
  with tags show ?thesis by blast
qed

text \<open>
  The round trip does work for a definition with exactly one kind, a default that is a
  string (or not set) and no \<open>custom_type\<close>: the kind and every populated field among
  \<open>default\<close>, \<open>description\<close> and \<open>enum\<close> come back.
\<close>

lemma deserialize_enum_tag:
  "deserialize_enum ValueType_members (PStr (ValueType_value t)) = Inr (PValueType t)"
  by (cases t)
    (simp_all add: deserialize_enum_def ValueType_members_def ValueType_all_def is_str_def
      py_lower_def lower_eval)

lemma InputDefinition_roundtrip_one_kind:
  assumes ty: "in_type d = [PValueType t]"
    and df: "truthy (in_default d) \<Longrightarrow> \<exists>s. in_default d = PStr s"
  shows "\<exists>d'. InputDefinition_roundtrip h d = Inr d'
           \<and> in_type d' = in_type d
           \<and> (truthy (in_default d) \<longrightarrow> in_default d' = in_default d)
           \<and> (truthy (in_description d) \<longrightarrow> in_description d' = in_description d)
           \<and> (truthy (in_enum d) \<longrightarrow> in_enum d' = in_enum d)"
proof -
  have str: "py_str h (in_default d) = Inr (in_default d)" if "truthy (in_default d)"
    using df [OF that] by (auto simp: py_str_def)
  obtain data where data: "InputDefinition_serialize h d = Inr data"
    using ty str by (cases "truthy (in_default d)")
      (simp_all add: InputDefinition_serialize_def Let_def)
  from data ty str
  have m: "map_of data ''type'' = Some (PStr (ValueType_value t))"
    "truthy (in_default d) \<Longrightarrow> map_of data ''default'' = Some (in_default d)"
    "truthy (in_description d) \<Longrightarrow> map_of data ''description'' = Some (in_description d)"
    "truthy (in_enum d) \<Longrightarrow> map_of data ''enum'' = Some (in_enum d)"
    by (auto simp: InputDefinition_serialize_def Let_def map_of_setitem split: if_splits)
  show ?thesis
    using data m ty
    by (simp add: InputDefinition_roundtrip_def InputDefinition_deserialize_def getitem_def
        dict_get_def deserialize_type_def normalize_type_def deserialize_enum_tag)
qed

end
